theory Spec2Isabelle
  imports Main "HOL-Library.AList"
begin

section \<open>Python values and paths\<close>

text \<open>
  The values \<open>yaml.safe_load\<close> hands to the parser: scalars, lists and mappings.
  A mapping is an association list in insertion order; its keys are strings and are
  pairwise distinct, as the keys of a Python dict are.
\<close>

datatype pyval =
    PNone
  | PBool bool
  | PInt int
  | PStr string
  | PList "pyval list"
  | PDict "(string \<times> pyval) list"

text \<open>Python truthiness (\<open>if x\<close>, \<open>bool(x)\<close>).\<close>

fun py_truthy :: "pyval \<Rightarrow> bool" where
  "py_truthy PNone = False"
| "py_truthy (PBool b) = b"
| "py_truthy (PInt n) = (n \<noteq> 0)"
| "py_truthy (PStr s) = (s \<noteq> [])"
| "py_truthy (PList xs) = (xs \<noteq> [])"
| "py_truthy (PDict kvs) = (kvs \<noteq> [])"

text \<open>
  A \<open>pathlib\<close> path on a POSIX system: its root (\<open>''''\<close>, \<open>''/''\<close> or \<open>''//''\<close>) and
  its components.
\<close>

datatype path = PurePath (root: string) (parts: "string list")

fun split_on :: "char \<Rightarrow> string \<Rightarrow> string list" where
  "split_on c [] = [[]]"
| "split_on c (x # xs) =
     (if x = c then [] # split_on c xs
      else (case split_on c xs of
              [] \<Rightarrow> [[x]]
            | w # ws \<Rightarrow> (x # w) # ws))"

definition startswith :: "string \<Rightarrow> string \<Rightarrow> bool" where
  "startswith s pre = (take (length pre) s = pre)"

definition removeprefix :: "string \<Rightarrow> string \<Rightarrow> string" where
  "removeprefix s pre = (if startswith s pre then drop (length pre) s else s)"

text \<open>The white space that \<open>str.strip()\<close> removes, among the ASCII characters.\<close>

definition is_space :: "char \<Rightarrow> bool" where
  "is_space c = (c \<in> set [CHR '' '', CHR 0x09, CHR 0x0A, CHR 0x0B, CHR 0x0C, CHR 0x0D,
                           CHR 0x1C, CHR 0x1D, CHR 0x1E, CHR 0x1F])"

definition strip :: "string \<Rightarrow> string" where
  "strip s = rev (dropWhile is_space (rev (dropWhile is_space s)))"

text \<open>\<open>Path(s)\<close>: the root is kept, empty components and \<open>.\<close> are dropped.\<close>

definition Path :: "string \<Rightarrow> path" where
  "Path s =
     PurePath
       (if startswith s ''//'' \<and> \<not> startswith s ''///'' then ''//''
        else if startswith s ''/'' then ''/'' else '''')
       (filter (\<lambda>x. x \<noteq> [] \<and> x \<noteq> ''.'') (split_on CHR ''/'' s))"

text \<open>\<open>p / s\<close>: an absolute right operand replaces the left one.\<close>

definition truediv :: "path \<Rightarrow> string \<Rightarrow> path" where
  "truediv p s =
     (if startswith s ''/'' then Path s
      else PurePath (root p) (parts p @ parts (Path s)))"

text \<open>\<open>p.parent\<close>: a path without components is its own parent.\<close>

definition parent :: "path \<Rightarrow> path" where
  "parent p = (if parts p = [] then p else PurePath (root p) (butlast (parts p)))"

section \<open>The command tree (types.py)\<close>

text \<open>
  The dataclasses of \<open>types.py\<close>. Every \<open>Command\<close> carries \<open>desc\<close> as its first
  field. The parser stores \<open>desc\<close> and \<open>throw\<close> as it reads them, so both hold a
  \<open>pyval\<close>. An \<open>entry\<close> is what \<open>_parse_command\<close> returns and what a registry or a
  \<open>CommandObj\<close> holds: a \<open>Command\<close>, a \<open>CommandRegistry\<close>, or \<open>None\<close>. The classes
  \<open>Command\<close> and \<open>ConfigCmd\<close> themselves are never instantiated by the parser and have
  no constructor here. \<open>ensure_env\<close> is a set; the list is the order in which
  \<open>execute_command\<close> iterates it.
\<close>

datatype command =
    ThrowConfig pyval pyval
  | DescConfig pyval
  | CwdConfig pyval path
  | SimpleCommand pyval string
  | ListCommands pyval "command list"
  | CommandObj pyval entry "path option" "string list" "(string \<times> string) list" pyval
and entry =
    Cmd command
  | Reg registry
  | PyNone
and registry =
    CommandRegistry (desc: string) (commands: "(string \<times> entry) list")

fun is_DescConfig :: "command \<Rightarrow> bool" where
  "is_DescConfig (DescConfig d) = True"
| "is_DescConfig c = False"

text \<open>
  \<open>ListCommands(commands=cs)\<close> followed by \<open>__post_init__\<close>: the loop stops at the
  first element that is a \<open>DescConfig\<close>, copies its \<open>desc\<close> and removes it from the
  list.
\<close>

definition ListCommands_init :: "command list \<Rightarrow> command" where
  "ListCommands_init cs =
     (case find is_DescConfig cs of
        None \<Rightarrow> ListCommands (PStr []) cs
      | Some c \<Rightarrow>
          (case c of
             DescConfig d \<Rightarrow> ListCommands d (remove1 c cs)
           | _ \<Rightarrow> ListCommands (PStr []) cs))"

section \<open>Execution state\<close>

text \<open>Lines written by \<open>print\<close>, kept as the text's kind and the values put into it.\<close>

datatype msg =
    MissingCommands
  | AvailableCommands "string list"
  | UnknownCommand string
  | MissingEnvVar string
  | WhileExecuting command
  | InvalidConfiguration
  | MissingCommandsKey
  | ExpectedCommandInList pyval
  | UnexpectedKeys "string list"
  | ExpectedStringDesc pyval

text \<open>
  What a call can raise. \<open>exit(n)\<close> raises \<open>SystemExit\<close>, which is not an
  \<open>Exception\<close>. \<open>CommandFailure\<close> is the failure of a shell command.
\<close>

datatype exc = SystemExit int | CommandFailure int


record exec_ctx =
  args :: "string list"
  throw :: pyval
  cwd :: "path option"

text \<open>
  The process: its environment, its working directory, the command lines handed to the
  shell so far and the lines printed so far.
\<close>

record proc =
  environ :: "string \<rightharpoonup> string"
  pwd :: path
  ran :: "string list"
  out :: "msg list"

type_synonym shell = "proc \<Rightarrow> string \<Rightarrow> int"

definition print :: "msg \<Rightarrow> proc \<Rightarrow> proc" where
  "print m p = p\<lparr>out := out p @ [m]\<rparr>"

subsection \<open>The module sh\<close>

text \<open>
  Modelled from the spec: the module \<open>sh\<close> (\<open>sh.set_env\<close>, \<open>sh.has_env\<close>,
  \<open>sh.unset_env\<close>, \<open>sh.cd\<close>, \<open>sh.cmd\<close>) is not among the sources. The environment
  accessor is \<open>set(name, value)\<close>, \<open>unset(name)\<close>, \<open>has(name)\<close>; \<open>cd\<close> changes the
  working directory of the process.
\<close>

definition set_env :: "string \<Rightarrow> string \<Rightarrow> proc \<Rightarrow> proc" where
  "set_env k v p = p\<lparr>environ := (environ p)(k \<mapsto> v)\<rparr>"

definition has_env :: "string \<Rightarrow> proc \<Rightarrow> bool" where
  "has_env k p = (environ p k \<noteq> None)"

definition unset_env :: "string \<Rightarrow> proc \<Rightarrow> proc" where
  "unset_env k p = p\<lparr>environ := (environ p)(k := None)\<rparr>"

definition cd :: "path \<Rightarrow> proc \<Rightarrow> proc" where
  "cd d p = p\<lparr>pwd := d\<rparr>"

text \<open>
  Modelled from the spec: \<open>sh.cmd(string, throw)\<close> runs the command line in a
  subprocess, which sees the working directory and the environment of the process, and
  obtains its exit status (the parameter \<open>sh\<close>); if the status is non-zero and \<open>throw\<close>
  is true it fails with \<open>CommandFailure(status)\<close>, otherwise it returns.
\<close>

definition sh_cmd :: "shell \<Rightarrow> string \<Rightarrow> pyval \<Rightarrow> proc \<Rightarrow> exc option \<times> proc" where
  "sh_cmd sh s thr p =
     (let status = sh p s; p' = p\<lparr>ran := ran p @ [s]\<rparr>
      in (if status \<noteq> 0 \<and> py_truthy thr then Some (CommandFailure status) else None, p'))"

section \<open>Resolution: ExecCtx.get_command\<close>

definition available_commands :: "registry \<Rightarrow> msg" where
  "available_commands reg = AvailableCommands (map fst (commands reg))"

function get_command :: "registry \<Rightarrow> exec_ctx \<Rightarrow> proc \<Rightarrow> (exc + entry) \<times> exec_ctx \<times> proc" where
  "get_command reg ctx p =
     (case args ctx of
        [] \<Rightarrow>
          (Inl (SystemExit 1), ctx, print (available_commands reg) (print MissingCommands p))
      | cmd_name # rest \<Rightarrow>
          (case map_of (commands reg) cmd_name of
             None \<Rightarrow>
               (Inl (SystemExit 1), ctx\<lparr>args := rest\<rparr>,
                print (available_commands reg) (print (UnknownCommand cmd_name) p))
           | Some next_cmd \<Rightarrow>
               (case next_cmd of
                  Reg r \<Rightarrow> get_command r (ctx\<lparr>args := rest\<rparr>) p
                | _ \<Rightarrow> (Inr next_cmd, ctx\<lparr>args := rest\<rparr>, p))))"
  by pat_completeness auto
termination
  by (relation "measure (\<lambda>(reg, ctx, p). length (args ctx))") auto

declare get_command.simps [simp del]

section \<open>Execution: RunConfig.execute_command\<close>

lemma map_of_size_entry:
  "map_of kvs k = Some e \<Longrightarrow> size e < Suc (size_list (size_prod (\<lambda>_. 0) size) kvs)"
  by (induction kvs) (auto split: if_splits)

lemma get_command_size:
  "get_command reg ctx p = (Inr e, ctx', p') \<Longrightarrow> size e < size reg"
proof (induction reg ctx p rule: get_command.induct)
  case (1 reg ctx p)
  show ?case
  proof (cases "args ctx")
    case Nil
    with "1.prems" show ?thesis by (simp add: get_command.simps)
  next
    case (Cons cmd_name rest)
    show ?thesis
    proof (cases "map_of (commands reg) cmd_name")
      case None
      with Cons "1.prems" show ?thesis by (simp add: get_command.simps)
    next
      case (Some next_cmd)
      have lt: "size next_cmd < size reg"
        using map_of_size_entry [OF Some] by (cases reg) simp
      show ?thesis
      proof (cases next_cmd)
        case (Reg r)
        with Cons Some "1.prems" have "get_command r (ctx\<lparr>args := rest\<rparr>) p = (Inr e, ctx', p')"
          by (simp add: get_command.simps [of reg])
        from "1.IH" [OF Cons Some Reg this] have "size e < size r" .
        with lt Reg show ?thesis by simp
      next
        case (Cmd c)
        with Cons Some "1.prems" lt show ?thesis by (auto simp add: get_command.simps [of reg])
      next
        case PyNone
        with Cons Some "1.prems" lt show ?thesis by (auto simp add: get_command.simps [of reg])
      qed
    qed
  qed
qed

text \<open>
  \<open>execute_command(cmd, ctx)\<close>. The result is what the call raises (\<open>None\<close> when it
  returns), the context and the process as the call leaves them. A \<open>try ... finally\<close>
  runs its \<open>finally\<close> block on both paths; the statements after it run only when
  nothing was raised. \<open>execute_list\<close> is the \<open>for\<close> loop over the items of a
  \<open>ListCommands\<close>.
\<close>

function execute_command :: "shell \<Rightarrow> entry \<Rightarrow> exec_ctx \<Rightarrow> proc \<Rightarrow> exc option \<times> exec_ctx \<times> proc"
  and execute_list :: "shell \<Rightarrow> command list \<Rightarrow> exec_ctx \<Rightarrow> proc \<Rightarrow> exc option \<times> exec_ctx \<times> proc"
where
  "execute_command sh (Cmd (ThrowConfig d t)) ctx p = (None, ctx\<lparr>throw := t\<rparr>, p)"
| "execute_command sh (Cmd (DescConfig d)) ctx p = (None, ctx, p)"
| "execute_command sh (Cmd (CwdConfig d c)) ctx p = (None, ctx\<lparr>cwd := Some c\<rparr>, p)"
| "execute_command sh (Cmd (SimpleCommand d s)) ctx p =
     (case sh_cmd sh s (throw ctx) p of (r, p') \<Rightarrow> (r, ctx, p'))"
| "execute_command sh (Cmd (ListCommands d cs)) ctx p =
     (case execute_list sh cs ctx p of
        (r, ctx', p') \<Rightarrow> (r, ctx'\<lparr>throw := throw ctx, cwd := cwd ctx\<rparr>, p'))"
| "execute_command sh (Cmd (CommandObj d inner c ensure_env sets t)) ctx p =
     (let p1 = fold (\<lambda>(k, v). set_env k v) sets p in
      case find (\<lambda>n. \<not> has_env n p1) ensure_env of
        Some n \<Rightarrow>
          (Some (SystemExit 1), ctx,
           print (WhileExecuting (CommandObj d inner c ensure_env sets t)) (print (MissingEnvVar n) p1))
      | None \<Rightarrow>
          (let ctx1 = ctx\<lparr>throw := (if t \<noteq> PNone then t else throw ctx),
                          cwd := (if c \<noteq> None then c else cwd ctx)\<rparr>;
               p2 = (case cwd ctx1 of None \<Rightarrow> p1 | Some dir \<Rightarrow> cd dir p1)
           in case (case inner of
                      Cmd sub \<Rightarrow> execute_command sh (Cmd sub) ctx1 p2
                    | Reg reg \<Rightarrow>
                        (case get_command reg ctx1 p2 of
                           (Inl e, ctx2, p3) \<Rightarrow> (Some e, ctx2, p3)
                         | (Inr sub_cmd, ctx2, p3) \<Rightarrow> execute_command sh sub_cmd ctx2 p3)
                    | PyNone \<Rightarrow> (None, ctx1, p2)) of
                (r, ctx2, p3) \<Rightarrow>
                  (case r of
                     Some e \<Rightarrow> (Some e, ctx2\<lparr>throw := throw ctx, cwd := cwd ctx\<rparr>, p3)
                   | None \<Rightarrow>
                       (None, ctx2\<lparr>throw := throw ctx, cwd := cwd ctx\<rparr>,
                        fold unset_env (map fst sets) p3))))"
| "execute_command sh (Reg reg) ctx p = (None, ctx, p)"
| "execute_command sh PyNone ctx p = (None, ctx, p)"
| "execute_list sh [] ctx p = (None, ctx, p)"
| "execute_list sh (sub_cmd # cs) ctx p =
     (case execute_command sh (Cmd sub_cmd) ctx p of
        (Some e, ctx', p') \<Rightarrow> (Some e, ctx', p')
      | (None, ctx', p') \<Rightarrow> execute_list sh cs ctx' p')"
  by pat_completeness auto
termination
  by (relation "measure (\<lambda>x. case x of
                   Inl (sh, e, ctx, p) \<Rightarrow> 2 * size e
                 | Inr (sh, cs, ctx, p) \<Rightarrow> 2 * size_list size cs + 1)")
     (auto dest: get_command_size [OF sym])

section \<open>RunConfig\<close>

record RunConfig =
  reg :: registry

text \<open>\<open>dict.update\<close>: an existing key keeps its place and takes the new value, a new key is appended.\<close>

definition dict_update :: "('k \<times> 'v) list \<Rightarrow> ('k \<times> 'v) list \<Rightarrow> ('k \<times> 'v) list" where
  "dict_update d other = fold (\<lambda>(k, v). AList.update k v) other d"

definition override :: "RunConfig \<Rightarrow> RunConfig \<Rightarrow> RunConfig" where
  "override self other =
     self\<lparr>reg := CommandRegistry (desc (reg self))
                    (dict_update (commands (reg self)) (commands (reg other)))\<rparr>"





section \<open>The parser (parser.py)\<close>

text \<open>
  A \<open>ConfigParser\<close> holds the path of its file. \<open>resolve\<close> stands for
  \<open>Path(s).resolve()\<close>, which asks the file system.
\<close>

record ConfigParser =
  file_path :: path
  resolve :: "string \<Rightarrow> path"

definition resolve_cwd :: "ConfigParser \<Rightarrow> string \<Rightarrow> path" where
  "resolve_cwd self s =
     (if startswith (strip s) ''$THIS_DIR''
      then parent (truediv (file_path self) (removeprefix s ''$THIS_DIR''))
      else resolve self s)"

text \<open>
  What parsing can end with instead of a result: a printed line followed by \<open>exit(1)\<close>,
  or an exception of a builtin. \<open>IllTypedEnv\<close> stands for the case where the source
  goes on with an \<open>ensure_env\<close> that is not a set of strings or a \<open>set_env\<close> that is not
  a dict from strings to strings, against the declared types of \<open>CommandObj\<close>; the
  command tree here has no such value.
\<close>

datatype parse_error =
    ConfigExit msg
  | TypeError
  | ValueError
  | AttributeError
  | KeyError
  | IllTypedEnv

fun hashable :: "pyval \<Rightarrow> bool" where
  "hashable (PList xs) = False"
| "hashable (PDict kvs) = False"
| "hashable v = True"

fun str_list :: "pyval list \<Rightarrow> string list option" where
  "str_list [] = Some []"
| "str_list (PStr s # xs) = map_option ((#) s) (str_list xs)"
| "str_list (v # xs) = None"

text \<open>\<open>set(v)\<close>; the list is the order in which the set is later iterated.\<close>

fun py_set :: "pyval \<Rightarrow> parse_error + string list" where
  "py_set (PStr s) = Inr (remdups (map (\<lambda>c. [c]) s))"
| "py_set (PList xs) =
     (if \<exists>x \<in> set xs. \<not> hashable x then Inl TypeError
      else (case str_list xs of None \<Rightarrow> Inl IllTypedEnv | Some ss \<Rightarrow> Inr (remdups ss)))"
| "py_set (PDict kvs) = Inr (map fst kvs)"
| "py_set v = Inl TypeError"

text \<open>\<open>dict(v)\<close>: a mapping is copied, a sequence must consist of pairs.\<close>

fun py_pairs :: "pyval list \<Rightarrow> parse_error + (pyval \<times> pyval) list" where
  "py_pairs [] = Inr []"
| "py_pairs (x # xs) =
     (case (case x of
              PList [k, v] \<Rightarrow> if hashable k then Inr (k, v) else Inl TypeError
            | PList ys \<Rightarrow> Inl ValueError
            | PStr [a, b] \<Rightarrow> Inr (PStr [a], PStr [b])
            | PStr s \<Rightarrow> Inl ValueError
            | PDict [(k1, v1), (k2, v2)] \<Rightarrow> Inr (PStr k1, PStr k2)
            | PDict kvs \<Rightarrow> Inl ValueError
            | _ \<Rightarrow> Inl TypeError) of
        Inl e \<Rightarrow> Inl e
      | Inr kv \<Rightarrow> (case py_pairs xs of Inl e \<Rightarrow> Inl e | Inr kvs \<Rightarrow> Inr (kv # kvs)))"

fun str_pairs :: "(pyval \<times> pyval) list \<Rightarrow> (string \<times> string) list option" where
  "str_pairs [] = Some []"
| "str_pairs ((PStr k, PStr v) # xs) = map_option ((#) (k, v)) (str_pairs xs)"
| "str_pairs (x # xs) = None"

fun py_dict :: "pyval \<Rightarrow> parse_error + (string \<times> string) list" where
  "py_dict (PDict kvs) =
     (case str_pairs (map (\<lambda>(k, v). (PStr k, v)) kvs) of
        None \<Rightarrow> Inl IllTypedEnv
      | Some d \<Rightarrow> Inr d)"
| "py_dict (PList xs) =
     (case py_pairs xs of
        Inl e \<Rightarrow> Inl e
      | Inr kvs \<Rightarrow>
          (case str_pairs kvs of
             None \<Rightarrow> Inl IllTypedEnv
           | Some d \<Rightarrow> Inr (dict_update [] d)))"
| "py_dict (PStr s) = (if s = [] then Inr [] else Inl ValueError)"
| "py_dict v = Inl TypeError"

text \<open>\<open>d.pop(key, default)\<close>: the value and the dict without the key.\<close>

definition pop :: "string \<Rightarrow> pyval \<Rightarrow> (string \<times> pyval) list \<Rightarrow> pyval \<times> (string \<times> pyval) list" where
  "pop key dflt d =
     ((case map_of d key of None \<Rightarrow> dflt | Some v \<Rightarrow> v), AList.delete key d)"

lemma size_list_delete:
  "size_list f (AList.delete k d) \<le> size_list f d"
  by (induction d) auto

lemma pop_size:
  "pop key dflt d = (v, d') \<Longrightarrow> size_list f d' \<le> size_list f d"
  by (auto simp add: pop_def size_list_delete)

lemma map_of_size_pyval:
  "map_of kvs k = Some v \<Longrightarrow> size v < Suc (size_list (size_prod (\<lambda>_. 0) size) kvs)"
  by (induction kvs) (auto split: if_splits)

lemma pop_chain_size:
  assumes "pop k1 a1 kvs = (v1, d1)" and "pop k2 a2 d1 = (v2, d2)" and "pop k3 a3 d2 = (v3, d3)"
    and "pop k4 a4 d3 = (v4, d4)" and "pop k5 a5 d4 = (v5, d5)" and "map_of d5 k = Some v"
  shows "size v < Suc (size_list (size_prod (\<lambda>_. 0) size) kvs)"
proof -
  let ?f = "size_prod (\<lambda>_. 0) (size :: pyval \<Rightarrow> nat)"
  have "size_list ?f d5 \<le> size_list ?f kvs"
    using pop_size [OF assms(1), of ?f] pop_size [OF assms(2), of ?f] pop_size [OF assms(3), of ?f]
      pop_size [OF assms(4), of ?f] pop_size [OF assms(5), of ?f]
    by linarith
  with map_of_size_pyval [OF assms(6)] show ?thesis by linarith
qed

text \<open>
  \<open>_parse_command(cmd_data)\<close>. \<open>parse_list\<close> is the loop over the items of a list,
  \<open>parse_registry\<close> the loop over the items of a mapping that builds a
  \<open>CommandRegistry\<close>. A value that is neither \<open>str\<close>, \<open>list\<close> nor \<open>dict\<close> falls
  through every branch, and the function returns \<open>None\<close>.
\<close>

function (sequential) parse_command :: "ConfigParser \<Rightarrow> pyval \<Rightarrow> parse_error + entry"
  and parse_list :: "ConfigParser \<Rightarrow> pyval list \<Rightarrow> parse_error + command list"
  and parse_registry :: "ConfigParser \<Rightarrow> (string \<times> pyval) list \<Rightarrow> registry \<Rightarrow> parse_error + registry"
where
  "parse_command self (PStr s) = Inr (Cmd (SimpleCommand (PStr []) s))"
| "parse_command self (PList items) =
     (case parse_list self items of
        Inl e \<Rightarrow> Inl e
      | Inr cs \<Rightarrow> Inr (Cmd (ListCommands_init cs)))"
| "parse_command self (PDict cmd_data) =
     (if map_of cmd_data ''throw'' \<noteq> None \<and> length cmd_data = 1 then
        (case map_of cmd_data ''throw'' of
           None \<Rightarrow> Inl KeyError
         | Some v \<Rightarrow> Inr (Cmd (ThrowConfig (PStr []) v)))
      else if map_of cmd_data ''desc'' \<noteq> None \<and> length cmd_data = 1 then
        (case map_of cmd_data ''desc'' of
           None \<Rightarrow> Inl KeyError
         | Some v \<Rightarrow> Inr (Cmd (DescConfig v)))
      else if map_of cmd_data ''cmd'' \<noteq> None then
        (case pop ''desc'' (PStr []) cmd_data of (dsc, d1) \<Rightarrow>
        (case pop ''ensure_env'' (PList []) d1 of (ee, d2) \<Rightarrow>
        (case py_set ee of Inl e \<Rightarrow> Inl e | Inr ensure_env \<Rightarrow>
        (case pop ''set_env'' (PDict []) d2 of (se, d3) \<Rightarrow>
        (case py_dict se of Inl e \<Rightarrow> Inl e | Inr sets \<Rightarrow>
        (case pop ''throw'' PNone d3 of (thr, d4) \<Rightarrow>
        (case pop ''cwd'' PNone d4 of (cw, d5) \<Rightarrow>
        (case map_of d5 ''cmd'' of None \<Rightarrow> Inl KeyError | Some c \<Rightarrow>
        (case parse_command self c of Inl e \<Rightarrow> Inl e | Inr cmd \<Rightarrow>
           (let d6 = AList.delete ''cmd'' d5 in
            if length d6 > 0 then Inl (ConfigExit (UnexpectedKeys (map fst d6)))
            else if py_truthy cw then
              (case cw of
                 PStr s \<Rightarrow> Inr (Cmd (CommandObj dsc cmd (Some (resolve_cwd self s)) ensure_env sets thr))
               | _ \<Rightarrow> Inl AttributeError)
            else Inr (Cmd (CommandObj dsc cmd None ensure_env sets thr))))))))))))
      else
        (case parse_registry self cmd_data (CommandRegistry [] []) of
           Inl e \<Rightarrow> Inl e
         | Inr r \<Rightarrow> Inr (Reg r)))"
| "parse_command self v = Inr PyNone"
| "parse_list self [] = Inr []"
| "parse_list self (item # items) =
     (case parse_command self item of
        Inl e \<Rightarrow> Inl e
      | Inr sub_cmd \<Rightarrow>
          (case sub_cmd of
             Cmd c \<Rightarrow>
               (case parse_list self items of
                  Inl e \<Rightarrow> Inl e
                | Inr cs \<Rightarrow> Inr (c # cs))
           | _ \<Rightarrow> Inl (ConfigExit (ExpectedCommandInList item))))"
| "parse_registry self [] r = Inr r"
| "parse_registry self ((key, val) # rest) r =
     (case parse_command self val of
        Inl e \<Rightarrow> Inl e
      | Inr cmd \<Rightarrow>
          (if key = ''desc'' then
             (case cmd of
                Cmd (SimpleCommand d s) \<Rightarrow> parse_registry self rest (CommandRegistry s (commands r))
              | _ \<Rightarrow> Inl (ConfigExit (ExpectedStringDesc val)))
           else parse_registry self rest
                  (CommandRegistry (desc r) (AList.update key cmd (commands r)))))"
  by pat_completeness auto
termination
  by (relation "measure (\<lambda>x. case x of
                   Inl (self, v) \<Rightarrow> size v
                 | Inr (Inl (self, items)) \<Rightarrow> size_list size items
                 | Inr (Inr (self, kvs, r)) \<Rightarrow> size_list (size_prod (\<lambda>_. 0) size) kvs)")
     (auto dest: pop_chain_size [OF sym sym sym sym sym])

text \<open>
  \<open>ConfigParser.parse()\<close> on the document that \<open>yaml.safe_load\<close> returned:
  \<open>parse_items\<close> is its loop over \<open>config_data["commands"].items()\<close>.
\<close>

fun parse_items :: "ConfigParser \<Rightarrow> (string \<times> pyval) list \<Rightarrow> RunConfig \<Rightarrow> parse_error + RunConfig" where
  "parse_items self [] config = Inr config"
| "parse_items self ((cmd_name, cmd_data) # rest) config =
     (case parse_command self cmd_data of
        Inl e \<Rightarrow> Inl e
      | Inr cmd \<Rightarrow>
          parse_items self rest
            (config\<lparr>reg := CommandRegistry (desc (reg config))
                              (AList.update cmd_name cmd (commands (reg config)))\<rparr>))"

definition parse :: "ConfigParser \<Rightarrow> pyval \<Rightarrow> parse_error + RunConfig" where
  "parse self config_data =
     (case config_data of
        PDict doc \<Rightarrow>
          (case map_of doc ''commands'' of
             None \<Rightarrow> Inl (ConfigExit MissingCommandsKey)
           | Some cmds \<Rightarrow>
               (case cmds of
                  PDict items \<Rightarrow> parse_items self items \<lparr>reg = CommandRegistry [] []\<rparr>
                | _ \<Rightarrow> Inl AttributeError))
      | _ \<Rightarrow> Inl (ConfigExit InvalidConfiguration))"

section \<open>Concrete inputs\<close>

text \<open>The registry \<open>{"b": {"c": "echo hi"}}\<close>.\<close>

definition registry_A :: registry where
  "registry_A =
     CommandRegistry []
       [(''b'', Reg (CommandRegistry [] [(''c'', Cmd (SimpleCommand (PStr []) ''echo hi''))]))]"

text \<open>A process in \<open>/home\<close> with an empty environment that has run and printed nothing.\<close>

definition proc0 :: proc where
  "proc0 = \<lparr>environ = Map.empty, pwd = PurePath ''/'' [''home''], ran = [], out = []\<rparr>"

definition ctx_of :: "string list \<Rightarrow> exec_ctx" where
  "ctx_of argv = \<lparr>args = argv, throw = PBool False, cwd = None\<rparr>"

text \<open>The parser of the configuration file \<open>/etc/run.yml\<close>.\<close>

definition parser_etc :: ConfigParser where
  "parser_etc = \<lparr>file_path = Path ''/etc/run.yml'', resolve = Path\<rparr>"

text \<open>A shell in which \<open>false\<close> ends with status 1 and every other command with status 0.\<close>

definition shell_false :: shell where
  "shell_false p s = (if s = ''false'' then 1 else 0)"

text \<open>
  A command object that sets \<open>A=1\<close> around one literal command, without and with
  \<open>throw\<close>, and one that runs a literal command in \<open>/tmp\<close>.
\<close>

definition scoped_env :: "string \<Rightarrow> pyval \<Rightarrow> command" where
  "scoped_env s t = CommandObj (PStr []) (Cmd (SimpleCommand (PStr []) s)) None [] [(''A'', ''1'')] t"

definition scoped_tmp :: "pyval \<Rightarrow> command" where
  "scoped_tmp t =
     CommandObj (PStr []) (Cmd (SimpleCommand (PStr []) ''true'')) (Some (PurePath ''/'' [''tmp''])) [] [] t"

text \<open>A shell in which a command ends with status 0 in \<open>/tmp\<close> and with status 1 elsewhere.\<close>

definition shell_in_tmp :: shell where
  "shell_in_tmp p s = (if pwd p = PurePath ''/'' [''tmp''] then 0 else 1)"




section \<open>Resolution\<close>

text \<open>
  C6. \<open>get_command\<close> on empty arguments prints the missing-command lines and exits with
  status 1; on a name that is not a key of the registry it prints the unknown-command line
  naming that name and exits with status 1; on a name bound to a registry it goes on in
  that registry with the remaining arguments; otherwise it returns the entry found and
  leaves the remaining arguments in the context. For \<open>{"b": {"c": "echo hi"}}\<close> the
  arguments \<open>b c\<close> give the literal \<open>echo hi\<close>, and \<open>b x\<close> fail naming \<open>x\<close>.
\<close>

theorem get_command_resolve:
  "(args ctx = [] \<longrightarrow>
      get_command rg ctx p =
        (Inl (SystemExit 1), ctx, print (available_commands rg) (print MissingCommands p)))
   \<and> (\<forall>name rest. args ctx = name # rest \<longrightarrow>
        (map_of (commands rg) name = None \<longrightarrow>
           get_command rg ctx p =
             (Inl (SystemExit 1), ctx\<lparr>args := rest\<rparr>,
              print (available_commands rg) (print (UnknownCommand name) p)))
        \<and> (\<forall>r. map_of (commands rg) name = Some (Reg r) \<longrightarrow>
              get_command rg ctx p = get_command r (ctx\<lparr>args := rest\<rparr>) p)
        \<and> (\<forall>e. map_of (commands rg) name = Some e \<longrightarrow> (\<forall>r. e \<noteq> Reg r) \<longrightarrow>
              get_command rg ctx p = (Inr e, ctx\<lparr>args := rest\<rparr>, p)))
   \<and> get_command registry_A (ctx_of [''b'', ''c'']) proc0 =
        (Inr (Cmd (SimpleCommand (PStr []) ''echo hi'')), ctx_of [], proc0)
   \<and> get_command registry_A (ctx_of [''b'', ''x'']) proc0 =
        (Inl (SystemExit 1), ctx_of [],
         proc0\<lparr>out := [UnknownCommand ''x'', AvailableCommands [''c'']]\<rparr>)"
proof (intro conjI allI impI)
  assume "args ctx = []"
  then show "get_command rg ctx p =
        (Inl (SystemExit 1), ctx, print (available_commands rg) (print MissingCommands p))"
    by (simp add: get_command.simps [of rg])
next
  fix name rest
  assume a: "args ctx = name # rest"
  {
    assume "map_of (commands rg) name = None"
    with a show "get_command rg ctx p =
             (Inl (SystemExit 1), ctx\<lparr>args := rest\<rparr>,
              print (available_commands rg) (print (UnknownCommand name) p))"
      by (simp add: get_command.simps [of rg])
  next
    fix r
    assume "map_of (commands rg) name = Some (Reg r)"
    with a show "get_command rg ctx p = get_command r (ctx\<lparr>args := rest\<rparr>) p"
      by (simp add: get_command.simps [of rg])
  next
    fix e
    assume "map_of (commands rg) name = Some e" and "\<forall>r. e \<noteq> Reg r"
    with a show "get_command rg ctx p = (Inr e, ctx\<lparr>args := rest\<rparr>, p)"
      by (cases e) (simp_all add: get_command.simps [of rg])
  }
next
  show "get_command registry_A (ctx_of [''b'', ''c'']) proc0 =
        (Inr (Cmd (SimpleCommand (PStr []) ''echo hi'')), ctx_of [], proc0)"
    by (simp add: get_command.simps registry_A_def ctx_of_def)
next
  show "get_command registry_A (ctx_of [''b'', ''x'']) proc0 =
        (Inl (SystemExit 1), ctx_of [],
         proc0\<lparr>out := [UnknownCommand ''x'', AvailableCommands [''c'']]\<rparr>)"
    by (simp add: get_command.simps registry_A_def ctx_of_def print_def available_commands_def proc0_def)
qed

theorem get_command_resolve_witness:
  "args (ctx_of []) = []
   \<and> fst (get_command registry_A (ctx_of []) proc0) = Inl (SystemExit 1)
   \<and> args (ctx_of [''x'']) = ''x'' # [] \<and> map_of (commands registry_A) ''x'' = None
   \<and> fst (get_command registry_A (ctx_of [''x'']) proc0) = Inl (SystemExit 1)
   \<and> args (ctx_of [''b'', ''c'']) = ''b'' # [''c'']
   \<and> map_of (commands registry_A) ''b'' =
        Some (Reg (CommandRegistry [] [(''c'', Cmd (SimpleCommand (PStr []) ''echo hi''))]))
   \<and> get_command registry_A (ctx_of [''b'', ''c'']) proc0 =
        get_command (CommandRegistry [] [(''c'', Cmd (SimpleCommand (PStr []) ''echo hi''))])
          ((ctx_of [''b'', ''c''])\<lparr>args := [''c'']\<rparr>) proc0
   \<and> args (ctx_of [''c'']) = ''c'' # []
   \<and> map_of (commands (CommandRegistry [] [(''c'', Cmd (SimpleCommand (PStr []) ''echo hi''))])) ''c''
        = Some (Cmd (SimpleCommand (PStr []) ''echo hi''))
   \<and> (\<forall>r. Cmd (SimpleCommand (PStr []) ''echo hi'') \<noteq> Reg r)
   \<and> get_command (CommandRegistry [] [(''c'', Cmd (SimpleCommand (PStr []) ''echo hi''))])
        (ctx_of [''c'']) proc0
      = (Inr (Cmd (SimpleCommand (PStr []) ''echo hi'')), (ctx_of [''c''])\<lparr>args := []\<rparr>, proc0)"
  using get_command_resolve [of "ctx_of []" registry_A proc0]
    get_command_resolve [of "ctx_of [''x'']" registry_A proc0]
    get_command_resolve [of "ctx_of [''b'', ''c'']" registry_A proc0]
    get_command_resolve [of "ctx_of [''c'']"
      "CommandRegistry [] [(''c'', Cmd (SimpleCommand (PStr []) ''echo hi''))]" proc0]
  by (simp add: registry_A_def ctx_of_def)

section \<open>Merging two configurations\<close>

lemma map_of_dict_update:
  "distinct (map fst other) \<Longrightarrow>
   map_of (dict_update d other) k = (case map_of other k of Some v \<Rightarrow> Some v | None \<Rightarrow> map_of d k)"
proof (induction other arbitrary: d)
  case Nil
  then show ?case by (simp add: dict_update_def)
next
  case (Cons kv other)
  obtain k0 v0 where kv: "kv = (k0, v0)" by (cases kv)
  from Cons.prems kv have d: "distinct (map fst other)" and n: "k0 \<notin> fst ` set other" by auto
  have "dict_update d (kv # other) = dict_update (AList.update k0 v0 d) other"
    by (simp add: dict_update_def kv)
  moreover from n have "map_of other k0 = None" by (simp add: map_of_eq_None_iff)
  ultimately show ?case
    using Cons.IH [OF d, of "AList.update k0 v0 d"] kv
    by (auto simp add: update_conv' split: option.splits)
qed

text \<open>
  C8. \<open>override\<close> is a shallow merge: a name of the overriding registry is bound to the
  overriding entry, whole; any other name keeps the entry of the base. Overriding
  \<open>{x: 1, y: 2}\<close> with \<open>{x: 3}\<close> gives \<open>{x: 3, y: 2}\<close>, and a nested registry is
  replaced, not merged.
\<close>

theorem override_shallow:
  "(distinct (map fst (commands (reg other))) \<longrightarrow>
      (\<forall>name. map_of (commands (reg (override base other))) name =
         (case map_of (commands (reg other)) name of
            Some e \<Rightarrow> Some e
          | None \<Rightarrow> map_of (commands (reg base)) name)))
   \<and> override
        \<lparr>reg = CommandRegistry [] [(''x'', Cmd (SimpleCommand (PStr []) ''1'')),
                                    (''y'', Cmd (SimpleCommand (PStr []) ''2''))]\<rparr>
        \<lparr>reg = CommandRegistry [] [(''x'', Cmd (SimpleCommand (PStr []) ''3''))]\<rparr>
      = \<lparr>reg = CommandRegistry [] [(''x'', Cmd (SimpleCommand (PStr []) ''3'')),
                                    (''y'', Cmd (SimpleCommand (PStr []) ''2''))]\<rparr>
   \<and> override
        \<lparr>reg = CommandRegistry [] [(''g'', Reg (CommandRegistry [] [(''a'', Cmd (SimpleCommand (PStr []) ''1''))]))]\<rparr>
        \<lparr>reg = CommandRegistry [] [(''g'', Reg (CommandRegistry [] [(''b'', Cmd (SimpleCommand (PStr []) ''2''))]))]\<rparr>
      = \<lparr>reg = CommandRegistry [] [(''g'', Reg (CommandRegistry [] [(''b'', Cmd (SimpleCommand (PStr []) ''2''))]))]\<rparr>"
  by (simp add: override_def map_of_dict_update) (simp add: dict_update_def)

theorem override_shallow_witness:
  "distinct (map fst (commands (reg \<lparr>reg = CommandRegistry [] [(''x'', Cmd (SimpleCommand (PStr []) ''3''))]\<rparr>)))
   \<and> map_of (commands (reg (override
        \<lparr>reg = CommandRegistry [] [(''x'', Cmd (SimpleCommand (PStr []) ''1'')),
                                    (''y'', Cmd (SimpleCommand (PStr []) ''2''))]\<rparr>
        \<lparr>reg = CommandRegistry [] [(''x'', Cmd (SimpleCommand (PStr []) ''3''))]\<rparr>))) ''y''
      = Some (Cmd (SimpleCommand (PStr []) ''2''))"
  using override_shallow [of "\<lparr>reg = CommandRegistry [] [(''x'', Cmd (SimpleCommand (PStr []) ''3''))]\<rparr>"
      "\<lparr>reg = CommandRegistry [] [(''x'', Cmd (SimpleCommand (PStr []) ''1'')),
                                    (''y'', Cmd (SimpleCommand (PStr []) ''2''))]\<rparr>"]
  by simp

section \<open>Working directory of a command object\<close>

text \<open>
  C3. With the configuration file at \<open>/etc/run.yml\<close>, \<open>resolve_cwd\<close> maps
  \<open>$THIS_DIR/sub\<close> to the root directory: the remainder \<open>/sub\<close> is absolute, so the join
  drops the path of the file, and \<open>parent\<close> is taken of the joined path. The directory of
  the file joined with the remainder would be \<open>/etc/sub\<close>.
\<close>

theorem resolve_cwd_this_dir_sub:
  "resolve_cwd parser_etc ''$THIS_DIR/sub'' = PurePath ''/'' []
   \<and> Path ''/etc/sub'' = PurePath ''/'' [''etc'', ''sub'']
   \<and> resolve_cwd parser_etc ''$THIS_DIR/sub'' \<noteq> Path ''/etc/sub''"
  by (simp add: resolve_cwd_def parser_etc_def strip_def is_space_def startswith_def
      removeprefix_def truediv_def Path_def parent_def)

section \<open>Descriptions in a list of commands\<close>

lemma find_append_first:
  "\<forall>c \<in> set pre. \<not> P c \<Longrightarrow> P x \<Longrightarrow> find P (pre @ x # post) = Some x"
  by (induction pre) auto

lemma remove1_append_first:
  "x \<notin> set pre \<Longrightarrow> remove1 x (pre @ x # post) = pre @ post"
  by (induction pre) auto

text \<open>
  C5 (amended). The constructor of \<open>ListCommands\<close> removes the first \<open>DescConfig\<close> of
  the items, at whatever position it stands, and takes its text as the description of the
  list; the items before and after it stay, later \<open>DescConfig\<close> items included. Without
  a \<open>DescConfig\<close> the items are unchanged. Executing a \<open>DescConfig\<close> changes nothing.
\<close>

theorem ListCommands_init_hoists_first:
  "(find is_DescConfig cs = None \<longrightarrow> ListCommands_init cs = ListCommands (PStr []) cs)
   \<and> ((\<forall>c \<in> set pre. \<not> is_DescConfig c) \<longrightarrow>
        ListCommands_init (pre @ DescConfig d # post) = ListCommands d (pre @ post))
   \<and> execute_command sh (Cmd (DescConfig d)) ctx p = (None, ctx, p)"
proof (intro conjI impI)
  assume "find is_DescConfig cs = None"
  then show "ListCommands_init cs = ListCommands (PStr []) cs"
    by (simp add: ListCommands_init_def)
next
  assume a: "\<forall>c \<in> set pre. \<not> is_DescConfig c"
  then have "DescConfig d \<notin> set pre" by auto
  with a show "ListCommands_init (pre @ DescConfig d # post) = ListCommands d (pre @ post)"
    by (simp add: ListCommands_init_def find_append_first remove1_append_first)
next
  show "execute_command sh (Cmd (DescConfig d)) ctx p = (None, ctx, p)" by simp
qed

theorem ListCommands_init_hoists_first_witness:
  "find is_DescConfig [SimpleCommand (PStr []) ''a''] = None
   \<and> ListCommands_init [SimpleCommand (PStr []) ''a''] = ListCommands (PStr []) [SimpleCommand (PStr []) ''a'']
   \<and> \<not> is_DescConfig (SimpleCommand (PStr []) ''a'')
   \<and> ListCommands_init ([SimpleCommand (PStr []) ''a''] @ DescConfig (PStr ''d'') # [DescConfig (PStr ''e'')])
      = ListCommands (PStr ''d'') ([SimpleCommand (PStr []) ''a''] @ [DescConfig (PStr ''e'')])"
  using ListCommands_init_hoists_first [of "[SimpleCommand (PStr []) ''a'']" "[SimpleCommand (PStr []) ''a'']"
      "PStr ''d''" "[DescConfig (PStr ''e'')]"]
  by simp

text \<open>
  C5 as stated fails: a \<open>DescConfig\<close> that is the second item is removed and hoisted, not
  left in place.
\<close>

theorem ListCommands_init_not_leading_counterexample:
  "ListCommands_init [SimpleCommand (PStr []) ''echo a'', DescConfig (PStr ''d'')]
     = ListCommands (PStr ''d'') [SimpleCommand (PStr []) ''echo a'']
   \<and> ListCommands_init [SimpleCommand (PStr []) ''echo a'', DescConfig (PStr ''d'')]
     \<noteq> ListCommands (PStr []) [SimpleCommand (PStr []) ''echo a'', DescConfig (PStr ''d'')]"
  by (simp add: ListCommands_init_def)

section \<open>Parsing\<close>

lemma parse_list_stops_at_non_command:
  assumes "\<forall>s. v \<noteq> PStr s" and "\<forall>xs. v \<noteq> PList xs" and "\<forall>kvs. v \<noteq> PDict kvs"
  shows "parse_list self pre = Inr cs \<Longrightarrow>
         parse_list self (pre @ v # post) = Inl (ConfigExit (ExpectedCommandInList v))"
proof (induction pre arbitrary: cs)
  case Nil
  from assms show ?case by (cases v) simp_all
next
  case (Cons a pre)
  then show ?case
    by (auto split: sum.splits entry.splits)
qed

lemma parse_list_fails_on_non_command:
  assumes "\<forall>s. v \<noteq> PStr s" and "\<forall>xs. v \<noteq> PList xs" and "\<forall>kvs. v \<noteq> PDict kvs"
  shows "v \<in> set items \<Longrightarrow> \<exists>e. parse_list self items = Inl e"
proof (induction items)
  case Nil
  then show ?case by simp
next
  case (Cons a items)
  show ?case
  proof (cases "a = v")
    case True
    with assms show ?thesis by (cases v) simp_all
  next
    case False
    with Cons obtain e where "parse_list self items = Inl e" by auto
    then show ?thesis by (auto split: sum.splits entry.splits)
  qed
qed

text \<open>
  C10. For a value that is neither a string, a list nor a mapping, \<open>_parse_command\<close>
  returns \<open>None\<close> and raises nothing. As an item of a list such a value makes the parse
  fail: with the config error naming the item when the items before it parse, and with
  some error in every case. As the value of a registry child the name is bound to \<open>None\<close>
  and the loop over the mapping goes on; a mapping with this single child parses to a
  registry with that binding.
\<close>

theorem parse_command_non_node:
  "(\<forall>s. v \<noteq> PStr s) \<and> (\<forall>xs. v \<noteq> PList xs) \<and> (\<forall>kvs. v \<noteq> PDict kvs) \<longrightarrow>
     parse_command self v = Inr PyNone
     \<and> (\<forall>pre cs post. parse_list self pre = Inr cs \<longrightarrow>
          parse_command self (PList (pre @ v # post)) = Inl (ConfigExit (ExpectedCommandInList v)))
     \<and> (\<forall>items. v \<in> set items \<longrightarrow> (\<exists>e. parse_command self (PList items) = Inl e))
     \<and> (\<forall>key rest r. key \<noteq> ''desc'' \<longrightarrow>
          parse_registry self ((key, v) # rest) r =
            parse_registry self rest (CommandRegistry (desc r) (AList.update key PyNone (commands r))))
     \<and> (\<forall>key. key \<noteq> ''desc'' \<and> key \<noteq> ''throw'' \<and> key \<noteq> ''cmd'' \<longrightarrow>
          parse_command self (PDict [(key, v)]) = Inr (Reg (CommandRegistry [] [(key, PyNone)])))"
proof (intro impI, elim conjE)
  assume a: "\<forall>s. v \<noteq> PStr s" "\<forall>xs. v \<noteq> PList xs" "\<forall>kvs. v \<noteq> PDict kvs"
  then have n: "parse_command self v = Inr PyNone" by (cases v) simp_all
  have l: "\<forall>pre cs post. parse_list self pre = Inr cs \<longrightarrow>
          parse_command self (PList (pre @ v # post)) = Inl (ConfigExit (ExpectedCommandInList v))"
    using parse_list_stops_at_non_command [OF a] by simp
  have f: "\<forall>items. v \<in> set items \<longrightarrow> (\<exists>e. parse_command self (PList items) = Inl e)"
  proof (intro allI impI)
    fix items
    assume "v \<in> set items"
    from parse_list_fails_on_non_command [OF a this, of self]
    obtain e where "parse_list self items = Inl e" by blast
    then show "\<exists>e. parse_command self (PList items) = Inl e" by simp
  qed
  have r: "\<forall>key rest r. key \<noteq> ''desc'' \<longrightarrow>
          parse_registry self ((key, v) # rest) r =
            parse_registry self rest (CommandRegistry (desc r) (AList.update key PyNone (commands r)))"
    using n by simp
  have d: "\<forall>key. key \<noteq> ''desc'' \<and> key \<noteq> ''throw'' \<and> key \<noteq> ''cmd'' \<longrightarrow>
          parse_command self (PDict [(key, v)]) = Inr (Reg (CommandRegistry [] [(key, PyNone)]))"
    using n by simp
  from n l f r d show "parse_command self v = Inr PyNone
     \<and> (\<forall>pre cs post. parse_list self pre = Inr cs \<longrightarrow>
          parse_command self (PList (pre @ v # post)) = Inl (ConfigExit (ExpectedCommandInList v)))
     \<and> (\<forall>items. v \<in> set items \<longrightarrow> (\<exists>e. parse_command self (PList items) = Inl e))
     \<and> (\<forall>key rest r. key \<noteq> ''desc'' \<longrightarrow>
          parse_registry self ((key, v) # rest) r =
            parse_registry self rest (CommandRegistry (desc r) (AList.update key PyNone (commands r))))
     \<and> (\<forall>key. key \<noteq> ''desc'' \<and> key \<noteq> ''throw'' \<and> key \<noteq> ''cmd'' \<longrightarrow>
          parse_command self (PDict [(key, v)]) = Inr (Reg (CommandRegistry [] [(key, PyNone)])))"
    by blast
qed

theorem parse_command_non_node_witness:
  "((\<forall>s. PInt 5 \<noteq> PStr s) \<and> (\<forall>xs. PInt 5 \<noteq> PList xs) \<and> (\<forall>kvs. PInt 5 \<noteq> PDict kvs))
   \<and> parse_command parser_etc (PInt 5) = Inr PyNone
   \<and> parse_list parser_etc [PStr ''ls''] = Inr [SimpleCommand (PStr []) ''ls'']
   \<and> parse_command parser_etc (PList ([PStr ''ls''] @ PInt 5 # [PStr ''pwd'']))
        = Inl (ConfigExit (ExpectedCommandInList (PInt 5)))
   \<and> parse_command parser_etc (PDict [(''build'', PInt 5), (''test'', PStr ''pytest'')])
        = Inr (Reg (CommandRegistry [] [(''build'', PyNone), (''test'', Cmd (SimpleCommand (PStr []) ''pytest''))]))"
  using parse_command_non_node [of "PInt 5" parser_etc]
  by simp

text \<open>
  C9 (amended). A mapping whose only key is \<open>throw\<close> parses to a \<open>ThrowConfig\<close> that holds
  the value of the key as it is, without conversion to \<open>bool\<close>; for a boolean value this
  is \<open>bool(value)\<close>. A mapping that has the key \<open>throw\<close>, more than one key and no key
  \<open>cmd\<close> is parsed by the loop that builds a registry, so the result is a
  \<open>CommandRegistry\<close> or an error of that loop, never a \<open>ThrowConfig\<close>.
\<close>

theorem parse_command_throw:
  "parse_command self (PDict [(''throw'', v)]) = Inr (Cmd (ThrowConfig (PStr []) v))
   \<and> parse_command self (PDict [(''throw'', PBool b)])
        = Inr (Cmd (ThrowConfig (PStr []) (PBool (py_truthy (PBool b)))))
   \<and> (map_of kvs ''throw'' \<noteq> None \<and> length kvs \<noteq> 1 \<and> map_of kvs ''cmd'' = None \<longrightarrow>
        parse_command self (PDict kvs) =
          (case parse_registry self kvs (CommandRegistry [] []) of
             Inl e \<Rightarrow> Inl e
           | Inr r \<Rightarrow> Inr (Reg r))
        \<and> (\<forall>d t. parse_command self (PDict kvs) \<noteq> Inr (Cmd (ThrowConfig d t))))"
  by (auto split: sum.splits)

theorem parse_command_throw_witness:
  "(map_of [(''throw'', PBool True), (''x'', PStr ''ls'')] ''throw'' \<noteq> None
    \<and> length [(''throw'', PBool True), (''x'', PStr ''ls'')] \<noteq> 1
    \<and> map_of [(''throw'', PBool True), (''x'', PStr ''ls'')] ''cmd'' = None)
   \<and> parse_command parser_etc (PDict [(''throw'', PBool True), (''x'', PStr ''ls'')])
      = Inr (Reg (CommandRegistry [] [(''throw'', PyNone), (''x'', Cmd (SimpleCommand (PStr []) ''ls''))]))"
  using parse_command_throw [of parser_etc "PBool True" True "[(''throw'', PBool True), (''x'', PStr ''ls'')]"]
  by simp

text \<open>
  C9 as stated fails: for the value \<open>abc\<close> the \<open>ThrowConfig\<close> holds the string, not
  \<open>bool(value)\<close>.
\<close>

theorem parse_command_throw_counterexample:
  "parse_command parser_etc (PDict [(''throw'', PStr ''abc'')])
     = Inr (Cmd (ThrowConfig (PStr []) (PStr ''abc'')))
   \<and> parse_command parser_etc (PDict [(''throw'', PStr ''abc'')])
     \<noteq> Inr (Cmd (ThrowConfig (PStr []) (PBool (py_truthy (PStr ''abc'')))))"
  by simp

section \<open>Sequences and failing commands\<close>

lemma execute_list_append:
  "execute_list sh pre ctx p = (None, ctx1, p1) \<Longrightarrow>
   execute_list sh (pre @ rest) ctx p = execute_list sh rest ctx1 p1"
proof (induction pre arbitrary: ctx p)
  case Nil
  then show ?case by simp
next
  case (Cons c pre)
  obtain r ctx2 p2 where step: "execute_command sh (Cmd c) ctx p = (r, ctx2, p2)"
    by (cases "execute_command sh (Cmd c) ctx p") auto
  show ?case
  proof (cases r)
    case None
    with step Cons.prems have "execute_list sh pre ctx2 p2 = (None, ctx1, p1)" by simp
    from Cons.IH [OF this] step None show ?thesis by simp
  next
    case (Some e)
    with step Cons.prems show ?thesis by simp
  qed
qed

lemma execute_list_literals:
  "\<not> py_truthy (throw ctx) \<Longrightarrow>
   execute_list sh (map (\<lambda>(d, s). SimpleCommand d s) ds) ctx p =
     (None, ctx, p\<lparr>ran := ran p @ map snd ds\<rparr>)"
proof (induction ds arbitrary: p)
  case Nil
  then show ?case by simp
next
  case (Cons x ds)
  obtain d s where x: "x = (d, s)" by (cases x)
  from Cons.prems Cons.IH [OF Cons.prems, of "p\<lparr>ran := ran p @ [s]\<rparr>"] show ?case
    by (simp add: x sh_cmd_def)
qed

text \<open>
  C7 (amended). In a sequence, a literal command that is reached while \<open>throw\<close> is true and whose
  subprocess ends with a non-zero status ends the loop with \<open>CommandFailure\<close>: the items
  after it are not executed and nothing more is handed to the shell, whether it is the
  first item or comes after items that returned. While \<open>throw\<close> is false the loop goes
  on with the next item whatever the status, so a list of literal commands is executed
  completely. For the list \<open>false\<close>, \<open>echo should-not-run\<close>, only \<open>false\<close> runs under
  \<open>throw = True\<close> and both run under \<open>throw = False\<close>.
\<close>

theorem literal_failure_stops_sequence:
  "(py_truthy (throw ctx) \<and> sh p s \<noteq> 0 \<longrightarrow>
      execute_list sh (SimpleCommand d s # rest) ctx p =
        (Some (CommandFailure (sh p s)), ctx, p\<lparr>ran := ran p @ [s]\<rparr>))
   \<and> (\<forall>ctx1 p1. execute_list sh pre ctx p = (None, ctx1, p1) \<and> py_truthy (throw ctx1) \<and> sh p1 s \<noteq> 0 \<longrightarrow>
        execute_list sh (pre @ SimpleCommand d s # rest) ctx p =
          (Some (CommandFailure (sh p1 s)), ctx1, p1\<lparr>ran := ran p1 @ [s]\<rparr>))
   \<and> (\<not> py_truthy (throw ctx) \<longrightarrow>
        execute_list sh (SimpleCommand d s # rest) ctx p =
          execute_list sh rest ctx (p\<lparr>ran := ran p @ [s]\<rparr>))
   \<and> (\<not> py_truthy (throw ctx) \<longrightarrow>
        execute_list sh (map (\<lambda>(d, s). SimpleCommand d s) ds) ctx p =
          (None, ctx, p\<lparr>ran := ran p @ map snd ds\<rparr>))
   \<and> (throw ctx = PBool True \<and> sh p ''false'' \<noteq> 0 \<longrightarrow>
        execute_command sh
          (Cmd (ListCommands dd [SimpleCommand d1 ''false'', SimpleCommand d2 ''echo should-not-run'']))
          ctx p =
          (Some (CommandFailure (sh p ''false'')), ctx, p\<lparr>ran := ran p @ [''false'']\<rparr>))
   \<and> (throw ctx = PBool False \<longrightarrow>
        execute_command sh
          (Cmd (ListCommands dd [SimpleCommand d1 ''false'', SimpleCommand d2 ''echo should-not-run'']))
          ctx p =
          (None, ctx, p\<lparr>ran := ran p @ [''false'', ''echo should-not-run'']\<rparr>))"
proof (intro conjI allI impI)
  assume "py_truthy (throw ctx) \<and> sh p s \<noteq> 0"
  then show "execute_list sh (SimpleCommand d s # rest) ctx p =
        (Some (CommandFailure (sh p s)), ctx, p\<lparr>ran := ran p @ [s]\<rparr>)"
    by (simp add: sh_cmd_def)
next
  fix ctx1 p1
  assume a: "execute_list sh pre ctx p = (None, ctx1, p1) \<and> py_truthy (throw ctx1) \<and> sh p1 s \<noteq> 0"
  then have "execute_list sh (pre @ SimpleCommand d s # rest) ctx p =
             execute_list sh (SimpleCommand d s # rest) ctx1 p1"
    by (simp add: execute_list_append)
  with a show "execute_list sh (pre @ SimpleCommand d s # rest) ctx p =
          (Some (CommandFailure (sh p1 s)), ctx1, p1\<lparr>ran := ran p1 @ [s]\<rparr>)"
    by (simp add: sh_cmd_def)
next
  assume "\<not> py_truthy (throw ctx)"
  then show "execute_list sh (SimpleCommand d s # rest) ctx p =
          execute_list sh rest ctx (p\<lparr>ran := ran p @ [s]\<rparr>)"
    by (simp add: sh_cmd_def)
next
  assume "\<not> py_truthy (throw ctx)"
  then show "execute_list sh (map (\<lambda>(d, s). SimpleCommand d s) ds) ctx p =
          (None, ctx, p\<lparr>ran := ran p @ map snd ds\<rparr>)"
    by (rule execute_list_literals)
next
  assume "throw ctx = PBool True \<and> sh p ''false'' \<noteq> 0"
  then show "execute_command sh
          (Cmd (ListCommands dd [SimpleCommand d1 ''false'', SimpleCommand d2 ''echo should-not-run'']))
          ctx p =
          (Some (CommandFailure (sh p ''false'')), ctx, p\<lparr>ran := ran p @ [''false'']\<rparr>)"
    by (simp add: sh_cmd_def)
next
  assume "throw ctx = PBool False"
  then show "execute_command sh
          (Cmd (ListCommands dd [SimpleCommand d1 ''false'', SimpleCommand d2 ''echo should-not-run'']))
          ctx p =
          (None, ctx, p\<lparr>ran := ran p @ [''false'', ''echo should-not-run'']\<rparr>)"
    by (simp add: sh_cmd_def)
qed

theorem literal_failure_stops_sequence_witness:
  "(throw ((ctx_of [])\<lparr>throw := PBool True\<rparr>) = PBool True \<and> shell_false proc0 ''false'' \<noteq> 0)
   \<and> execute_command shell_false
        (Cmd (ListCommands (PStr []) [SimpleCommand (PStr []) ''false'',
                                      SimpleCommand (PStr []) ''echo should-not-run'']))
        ((ctx_of [])\<lparr>throw := PBool True\<rparr>) proc0
      = (Some (CommandFailure 1), (ctx_of [])\<lparr>throw := PBool True\<rparr>, proc0\<lparr>ran := [''false'']\<rparr>)
   \<and> execute_list shell_false [ThrowConfig (PStr []) (PBool True)] (ctx_of []) proc0
      = (None, (ctx_of [])\<lparr>throw := PBool True\<rparr>, proc0)
   \<and> execute_list shell_false
        ([ThrowConfig (PStr []) (PBool True)] @ SimpleCommand (PStr []) ''false'' # [SimpleCommand (PStr []) ''ls''])
        (ctx_of []) proc0
      = (Some (CommandFailure 1), (ctx_of [])\<lparr>throw := PBool True\<rparr>, proc0\<lparr>ran := [''false'']\<rparr>)"
  using literal_failure_stops_sequence [of "(ctx_of [])\<lparr>throw := PBool True\<rparr>" shell_false proc0 "''false''"
      "PStr []" "[]" "[]" "[]" "PStr []" "PStr []" "PStr []"]
    literal_failure_stops_sequence [of "ctx_of []" shell_false proc0 "''false''"
      "PStr []" "[SimpleCommand (PStr []) ''ls'']" "[ThrowConfig (PStr []) (PBool True)]" "[]" "PStr []" "PStr []" "PStr []"]
  by (simp add: shell_false_def proc0_def ctx_of_def)

text \<open>
  C7 as stated fails, because a \<open>ThrowConfig\<close> earlier in the sequence changes the flag
  for the items after it. A sequence entered with \<open>throw = True\<close> that first switches it
  off runs the item after the failing literal; a sequence entered with \<open>throw = False\<close>
  that first switches it on stops at the failing literal.
\<close>

theorem sequence_entry_flag_counterexample:
  "shell_false proc0 ''false'' = 1
   \<and> execute_command shell_false
        (Cmd (ListCommands (PStr []) [ThrowConfig (PStr []) (PBool False),
                                      SimpleCommand (PStr []) ''false'',
                                      SimpleCommand (PStr []) ''echo should-not-run'']))
        ((ctx_of [])\<lparr>throw := PBool True\<rparr>) proc0
      = (None, (ctx_of [])\<lparr>throw := PBool True\<rparr>,
         proc0\<lparr>ran := [''false'', ''echo should-not-run'']\<rparr>)
   \<and> execute_command shell_false
        (Cmd (ListCommands (PStr []) [ThrowConfig (PStr []) (PBool True),
                                      SimpleCommand (PStr []) ''false'',
                                      SimpleCommand (PStr []) ''echo should-not-run'']))
        (ctx_of []) proc0
      = (Some (CommandFailure 1), ctx_of [], proc0\<lparr>ran := [''false'']\<rparr>)"
  by (simp add: shell_false_def proc0_def ctx_of_def sh_cmd_def)

section \<open>Scopes: command objects\<close>

lemma environ_fold_unset_env:
  "environ (fold unset_env ks p) = (\<lambda>k. if k \<in> set ks then None else environ p k)"
  by (induction ks arbitrary: p) (auto simp add: unset_env_def fun_eq_iff)

lemma pwd_fold_unset_env: "pwd (fold unset_env ks p) = pwd p"
  by (induction ks arbitrary: p) (auto simp add: unset_env_def)

lemma environ_fold_set_env:
  "environ (fold (\<lambda>(k, v). set_env k v) sets p) = environ p ++ map_of (rev sets)"
  by (induction sets arbitrary: p) (auto simp add: set_env_def fun_eq_iff map_add_def split: option.splits)

lemma environ_set_then_unset:
  assumes "environ q = environ (fold (\<lambda>(k, v). set_env k v) sets p)"
  shows "environ (fold unset_env (map fst sets) q) =
         (\<lambda>k. if k \<in> set (map fst sets) then None else environ p k)"
proof
  fix k
  show "environ (fold unset_env (map fst sets) q) k =
        (if k \<in> set (map fst sets) then None else environ p k)"
  proof (cases "k \<in> set (map fst sets)")
    case True
    then show ?thesis by (simp add: environ_fold_unset_env)
  next
    case False
    then have "map_of (rev sets) k = None" by (simp add: map_of_eq_None_iff)
    with False assms show ?thesis
      by (simp add: environ_fold_unset_env environ_fold_set_env map_add_def)
  qed
qed

text \<open>
  C1 (amended). After \<open>execute_command\<close> on a \<open>CommandObj\<close>, on every path (return,
  \<open>exit(1)\<close> for a missing variable, failure raised inside), \<open>ctx.throw\<close> and \<open>ctx.cwd\<close>
  are what they were before the call, whatever the inner entry is. When the call returns,
  every key of \<open>set_env\<close> is absent from the environment; around a literal command the
  environment after a return is the one before the call without these keys.
\<close>

theorem command_obj_restores_ctx:
  "execute_command sh (Cmd (CommandObj d inner c ens sets t)) ctx p = (r, ctx', p') \<longrightarrow>
     throw ctx' = throw ctx \<and> cwd ctx' = cwd ctx
     \<and> (r = None \<longrightarrow> (\<forall>k \<in> set (map fst sets). environ p' k = None))
     \<and> (r = None \<longrightarrow> (\<forall>d' s. inner = Cmd (SimpleCommand d' s) \<longrightarrow>
          environ p' = (\<lambda>k. if k \<in> set (map fst sets) then None else environ p k)))"
proof
  assume a: "execute_command sh (Cmd (CommandObj d inner c ens sets t)) ctx p = (r, ctx', p')"
  have ctx: "throw ctx' = throw ctx \<and> cwd ctx' = cwd ctx"
    using a by (auto simp add: Let_def split: option.splits prod.splits)
  have "r = None \<longrightarrow> (\<exists>q. p' = fold unset_env (map fst sets) q)"
    using a by (auto simp add: Let_def split: option.splits prod.splits)
  then have gone: "r = None \<longrightarrow> (\<forall>k \<in> set (map fst sets). environ p' k = None)"
    by (force simp add: environ_fold_unset_env)
  have lit: "r = None \<longrightarrow> (\<forall>d' s. inner = Cmd (SimpleCommand d' s) \<longrightarrow>
          environ p' = (\<lambda>k. if k \<in> set (map fst sets) then None else environ p k))"
  proof (intro impI allI)
    fix d' s
    assume "r = None" and "inner = Cmd (SimpleCommand d' s)"
    with a have "\<exists>q. p' = fold unset_env (map fst sets) q
                   \<and> environ q = environ (fold (\<lambda>(k, v). set_env k v) sets p)"
      by (auto simp add: Let_def sh_cmd_def cd_def split: option.splits prod.splits if_splits)
    then show "environ p' = (\<lambda>k. if k \<in> set (map fst sets) then None else environ p k)"
      using environ_set_then_unset by blast
  qed
  from ctx gone lit show "throw ctx' = throw ctx \<and> cwd ctx' = cwd ctx
     \<and> (r = None \<longrightarrow> (\<forall>k \<in> set (map fst sets). environ p' k = None))
     \<and> (r = None \<longrightarrow> (\<forall>d' s. inner = Cmd (SimpleCommand d' s) \<longrightarrow>
          environ p' = (\<lambda>k. if k \<in> set (map fst sets) then None else environ p k)))"
    by blast
qed

theorem command_obj_restores_ctx_witness:
  "execute_command shell_false (Cmd (scoped_env ''false'' (PBool True))) (ctx_of []) proc0
     = (Some (CommandFailure 1), ctx_of [],
        proc0\<lparr>environ := [''A'' \<mapsto> ''1''], ran := [''false'']\<rparr>)
   \<and> throw (ctx_of []) = PBool False \<and> cwd (ctx_of []) = None"
  using command_obj_restores_ctx [of shell_false "PStr []" "Cmd (SimpleCommand (PStr []) ''false'')"
      None "[]" "[(''A'', ''1'')]" "PBool True" "ctx_of []" proc0
      "Some (CommandFailure 1)" "ctx_of []" "proc0\<lparr>environ := [''A'' \<mapsto> ''1''], ran := [''false'']\<rparr>"]
  by (simp add: scoped_env_def shell_false_def proc0_def ctx_of_def sh_cmd_def set_env_def has_env_def)

text \<open>
  C1 as stated fails for the environment. On the path of a return the keys of \<open>set_env\<close>
  are removed, so a variable that was set before the call is gone after it; on the path of
  a failure the keys stay set.
\<close>

theorem command_obj_environment_counterexample:
  "fst (execute_command shell_false (Cmd (scoped_env ''true'' PNone)) (ctx_of [])
          (proc0\<lparr>environ := [''A'' \<mapsto> ''0'']\<rparr>)) = None
   \<and> environ (snd (snd (execute_command shell_false (Cmd (scoped_env ''true'' PNone)) (ctx_of [])
          (proc0\<lparr>environ := [''A'' \<mapsto> ''0'']\<rparr>)))) ''A'' = None
   \<and> environ (proc0\<lparr>environ := [''A'' \<mapsto> ''0'']\<rparr>) ''A'' = Some ''0''
   \<and> fst (execute_command shell_false (Cmd (scoped_env ''false'' (PBool True))) (ctx_of []) proc0)
       = Some (CommandFailure 1)
   \<and> environ (snd (snd (execute_command shell_false (Cmd (scoped_env ''false'' (PBool True)))
          (ctx_of []) proc0))) ''A'' = Some ''1''
   \<and> environ proc0 ''A'' = None"
  by (simp add: scoped_env_def shell_false_def proc0_def ctx_of_def sh_cmd_def set_env_def
      has_env_def unset_env_def)

text \<open>
  C4 (amended). A \<open>CommandObj\<close> with \<open>cwd\<close> set changes the working directory of the
  process to it before the inner command runs: when no required variable is missing, an
  inner literal command is handed to the shell by a process whose working directory is the
  \<open>cwd\<close> of the object, and the outcome of the call is decided by the exit status the shell
  gives there. On exit the object puts back \<open>ctx.cwd\<close> only: the working directory of the
  process after the call is still the \<open>cwd\<close> of the object, whether the literal returned
  or failed.
\<close>

theorem command_obj_leaves_process_in_cwd:
  "(execute_command sh (Cmd (CommandObj d (Cmd (SimpleCommand d' s)) (Some w) ens sets t)) ctx p
      = (r, ctx', p') \<longrightarrow>
    cwd ctx' = cwd ctx \<and> (r \<noteq> Some (SystemExit 1) \<longrightarrow> pwd p' = w))
   \<and> (find (\<lambda>n. \<not> has_env n (fold (\<lambda>(k, v). set_env k v) sets p)) ens = None \<longrightarrow>
        pwd (cd w (fold (\<lambda>(k, v). set_env k v) sets p)) = w
        \<and> execute_command sh (Cmd (CommandObj d (Cmd (SimpleCommand d' s)) (Some w) ens sets t)) ctx p
          = (if sh (cd w (fold (\<lambda>(k, v). set_env k v) sets p)) s \<noteq> 0
                \<and> py_truthy (if t \<noteq> PNone then t else throw ctx)
             then (Some (CommandFailure (sh (cd w (fold (\<lambda>(k, v). set_env k v) sets p)) s)), ctx,
                   (cd w (fold (\<lambda>(k, v). set_env k v) sets p))
                     \<lparr>ran := ran (cd w (fold (\<lambda>(k, v). set_env k v) sets p)) @ [s]\<rparr>)
             else (None, ctx,
                   fold unset_env (map fst sets)
                     ((cd w (fold (\<lambda>(k, v). set_env k v) sets p))
                        \<lparr>ran := ran (cd w (fold (\<lambda>(k, v). set_env k v) sets p)) @ [s]\<rparr>))))"
proof (intro conjI impI)
  assume "execute_command sh (Cmd (CommandObj d (Cmd (SimpleCommand d' s)) (Some w) ens sets t)) ctx p
      = (r, ctx', p')"
  then show "cwd ctx' = cwd ctx"
    by (auto simp add: Let_def sh_cmd_def split: option.splits prod.splits if_splits)
next
  assume "execute_command sh (Cmd (CommandObj d (Cmd (SimpleCommand d' s)) (Some w) ens sets t)) ctx p
      = (r, ctx', p')" and "r \<noteq> Some (SystemExit 1)"
  then show "pwd p' = w"
    by (auto simp add: Let_def sh_cmd_def cd_def pwd_fold_unset_env
        split: option.splits prod.splits if_splits)
next
  show "pwd (cd w (fold (\<lambda>(k, v). set_env k v) sets p)) = w"
    by (simp add: cd_def)
next
  assume "find (\<lambda>n. \<not> has_env n (fold (\<lambda>(k, v). set_env k v) sets p)) ens = None"
  then show "execute_command sh (Cmd (CommandObj d (Cmd (SimpleCommand d' s)) (Some w) ens sets t)) ctx p
          = (if sh (cd w (fold (\<lambda>(k, v). set_env k v) sets p)) s \<noteq> 0
                \<and> py_truthy (if t \<noteq> PNone then t else throw ctx)
             then (Some (CommandFailure (sh (cd w (fold (\<lambda>(k, v). set_env k v) sets p)) s)), ctx,
                   (cd w (fold (\<lambda>(k, v). set_env k v) sets p))
                     \<lparr>ran := ran (cd w (fold (\<lambda>(k, v). set_env k v) sets p)) @ [s]\<rparr>)
             else (None, ctx,
                   fold unset_env (map fst sets)
                     ((cd w (fold (\<lambda>(k, v). set_env k v) sets p))
                        \<lparr>ran := ran (cd w (fold (\<lambda>(k, v). set_env k v) sets p)) @ [s]\<rparr>)))"
    by (simp add: Let_def sh_cmd_def)
qed

theorem command_obj_leaves_process_in_cwd_witness:
  "shell_in_tmp proc0 ''true'' = 1
   \<and> find (\<lambda>n. \<not> has_env n (fold (\<lambda>(k, v). set_env k v) [] proc0)) [] = None
   \<and> execute_command shell_in_tmp (Cmd (scoped_tmp (PBool True))) (ctx_of []) proc0
     = (None, ctx_of [], proc0\<lparr>pwd := PurePath ''/'' [''tmp''], ran := [''true'']\<rparr>)
   \<and> cwd (ctx_of []) = None
   \<and> pwd (proc0\<lparr>pwd := PurePath ''/'' [''tmp''], ran := [''true'']\<rparr>) = PurePath ''/'' [''tmp'']"
  using command_obj_leaves_process_in_cwd [of shell_in_tmp "PStr []" "PStr []" "''true''"
      "PurePath ''/'' [''tmp'']" "[]" "[]" "PBool True" "ctx_of []" proc0 None "ctx_of []"
      "proc0\<lparr>pwd := PurePath ''/'' [''tmp''], ran := [''true'']\<rparr>"]
  by (simp add: scoped_tmp_def shell_in_tmp_def proc0_def ctx_of_def cd_def)

text \<open>
  C4 as stated fails: after a command object with \<open>cwd = /tmp\<close> has returned, a process
  that was in \<open>/home\<close> is in \<open>/tmp\<close>.
\<close>

theorem command_obj_process_cwd_counterexample:
  "fst (execute_command shell_false (Cmd (scoped_tmp PNone)) (ctx_of []) proc0) = None
   \<and> pwd (snd (snd (execute_command shell_false (Cmd (scoped_tmp PNone)) (ctx_of []) proc0)))
       = PurePath ''/'' [''tmp'']
   \<and> pwd proc0 = PurePath ''/'' [''home'']
   \<and> pwd (snd (snd (execute_command shell_false (Cmd (scoped_tmp PNone)) (ctx_of []) proc0)))
       \<noteq> pwd proc0"
  by (simp add: scoped_tmp_def shell_false_def proc0_def ctx_of_def sh_cmd_def cd_def)

section \<open>Errors at run time\<close>












end
